theory Spec2Isabelle
  imports Main
begin

text \<open>
  A model of the order path of the e-commerce API: the payment-gateway client with its
  retry loop, the checkout transaction, and the webhook that applies payment
  notifications to orders, each function translated from its TypeScript source. The
  definitions come first, then the lemmas about them and, claim by claim, the theorems.
\<close>

section \<open>Decimal rendering of numbers\<close>

text \<open>
  Template literals such as \<^verbatim>\<open>`ORDER-${Date.now()}-${userId}`\<close> render a non-negative
  integer in decimal, most significant digit first and without leading zeros. The
  numbers rendered by the code (a millisecond clock reading, a 32-bit primary key, a retry
  bound) are far below \<open>10^21\<close>, where JavaScript would switch to exponent notation.
\<close>

definition digit_char :: "nat \<Rightarrow> char" where
  "digit_char d = ''0123456789'' ! d"

fun string_of_nat :: "nat \<Rightarrow> string" where
  "string_of_nat n =
     (if n < 10 then [digit_char n]
      else string_of_nat (n div 10) @ [digit_char (n mod 10)])"

declare string_of_nat.simps [simp del]

section \<open>The payment-gateway client (services/midtrans.ts)\<close>

record payment_response =
  token :: string
  redirect_url :: string

text \<open>
  What a failed call of \<^verbatim>\<open>snap.createTransaction\<close> throws: the error's message, and
  whether the failure was transient (network, timeout, 5xx) or a definitive rejection by
  the gateway. The source reads only the message.
\<close>

record gateway_error =
  transient :: bool
  error_message :: string

text \<open>
  The gateway is outside the program: it is given by the outcome of the \<open>i\<close>-th call
  (counted from 0) that one run of \<^verbatim>\<open>createTransactionWithRetry\<close> makes. The payload of
  the call is fixed during a run, so an arbitrary such function covers every gateway.
\<close>

type_synonym gateway = "nat \<Rightarrow> gateway_error + payment_response"

text \<open>
  A run of the retry loop: what it returns (\<open>Inl\<close> the message of the \<^verbatim>\<open>Error\<close> thrown),
  how many calls of the gateway it made, and the delays in milliseconds it slept, in
  order.
\<close>

record retry_run =
  outcome :: "string + payment_response"
  calls :: nat
  sleeps :: "nat list"

text \<open>
  \<^verbatim>\<open>for (let i = 0; i < maxRetries; i++) { try { ... return } catch { ... } }\<close> followed by the
  final \<^verbatim>\<open>throw\<close>. The loop state is the counter \<open>i\<close> and the delays slept so far.
\<close>

function retry_from :: "gateway \<Rightarrow> nat \<Rightarrow> nat \<Rightarrow> nat list \<Rightarrow> retry_run" where
  "retry_from snap maxRetries i slept =
     (if i < maxRetries then
        (case snap i of
           Inr response \<Rightarrow> \<lparr>outcome = Inr response, calls = i + 1, sleeps = slept\<rparr>
         | Inl err \<Rightarrow>
             if i = maxRetries - 1 then
               \<lparr>outcome = Inl (''Failed to create payment transaction after ''
                    @ string_of_nat maxRetries @ '' retries: '' @ error_message err),
                calls = i + 1, sleeps = slept\<rparr>
             else retry_from snap maxRetries (i + 1) (slept @ [min (1000 * 2 ^ i) 5000]))
      else \<lparr>outcome = Inl ''Failed to create payment transaction'', calls = i, sleeps = slept\<rparr>)"
  by pat_completeness auto
termination
  by (relation "measure (\<lambda>(snap, maxRetries, i, slept). maxRetries - i)") auto

declare retry_from.simps [simp del]

definition createTransactionWithRetry :: "gateway \<Rightarrow> nat \<Rightarrow> retry_run" where
  "createTransactionWithRetry snap maxRetries = retry_from snap maxRetries 0 []"

section \<open>The store\<close>

text \<open>
  Amounts (\<^verbatim>\<open>DECIMAL(10, 2)\<close> columns, IEEE doubles once read by \<^verbatim>\<open>parseFloat\<close>) are a
  type parameter \<open>'a\<close> of the store, and the arithmetic the checkout does on them is a
  parameter of the checkout. The arithmetic of the source is \<open>double_ops\<close> below; what does
  not depend on the arithmetic is proved for every arithmetic.
\<close>

record 'a number_ops =
  num_zero :: 'a
  num_add :: "'a \<Rightarrow> 'a \<Rightarrow> 'a"
  num_mul :: "'a \<Rightarrow> int \<Rightarrow> 'a"

subsection \<open>The arithmetic of the source: JavaScript numbers\<close>













subsection \<open>The tables\<close>

record user =
  user_name :: string
  user_email :: string

record 'a product =
  product_name :: string
  product_price :: 'a
  product_stock :: int

record cart =
  cart_id :: nat
  cart_userId :: nat

record cart_item =
  item_cartId :: nat
  item_productId :: nat
  item_quantity :: int

datatype order_status = Pending | Completed | Failed

text \<open>One line of the snapshot that checkout serialises into \<^verbatim>\<open>orderItems\<close>.\<close>

record 'a order_item =
  oi_productId :: nat
  oi_name :: string
  oi_price :: 'a
  oi_quantity :: int

text \<open>\<^verbatim>\<open>new Date(s)\<close>: the date built from the payload's string.\<close>

datatype date = Date string

text \<open>
  An order row. The \<^verbatim>\<open>orderItems\<close> column holds \<^verbatim>\<open>JSON.stringify\<close> of the snapshot and is
  read back with \<^verbatim>\<open>JSON.parse\<close>; the row holds the snapshot itself. The timestamps that
  the ORM maintains (\<^verbatim>\<open>createdAt\<close>, \<^verbatim>\<open>updatedAt\<close>) are no part of the row here: no code
  of the repository writes them.
\<close>

record 'a order =
  order_id :: nat
  order_userId :: nat
  totalAmount :: 'a
  status :: order_status
  midtransPaymentId :: "string option"
  orderItems :: "'a order_item list"
  paymentType :: "string option"
  transactionTime :: "date option"
  settlementTime :: "date option"

text \<open>
  The store: the committed tables, and the transactions that were begun and neither
  committed nor rolled back, each with the stock it has written for products
  (\<^verbatim>\<open>UPDATE products SET stock = ... WHERE id = ...\<close>). A table with a
  primary key read by key is a map; the others are lists in the order the database returns
  their rows, a row being addressed by its position. Reads made without a transaction see
  the committed tables. Requests run one after the other. Row locks and the connection
  pool are not modelled: an operation that fails on them is a storage fault (see the fault
  plans of the webhook below).
\<close>

record 'a db =
  users :: "nat \<rightharpoonup> user"
  carts :: "cart list"
  cart_items :: "cart_item list"
  products :: "nat \<rightharpoonup> 'a product"
  orders :: "'a order list"
  open_transactions :: "(nat \<rightharpoonup> int) list"

record reply =
  http_status :: nat
  message :: string

definition message_reply :: "nat \<Rightarrow> string \<Rightarrow> reply" where
  "message_reply code msg = \<lparr>http_status = code, message = msg\<rparr>"

section \<open>Checkout (controllers/orderController.ts)\<close>

text \<open>The \<^verbatim>\<open>order\<close> and \<^verbatim>\<open>payment\<close> objects of the 201 response.\<close>

record 'a created =
  created_id :: nat
  created_orderId :: string
  created_totalAmount :: 'a
  created_status :: order_status
  created_payment :: payment_response

text \<open>
  \<^verbatim>\<open>Cart.findOne({ where: { userId }, include: items with product })\<close>: the first cart of the
  user, with its lines, each joined with its product as the store has it at that moment
  (\<open>None\<close> when the product row is missing, which the foreign key of the cart lines,
  \<^verbatim>\<open>ON DELETE CASCADE\<close>, excludes in a store that the ORM has set up).
\<close>

definition load_cart :: "'a db \<Rightarrow> nat \<Rightarrow> (cart \<times> (cart_item \<times> 'a product option) list) option" where
  "load_cart d userId =
     (case find (\<lambda>c. cart_userId c = userId) (carts d) of
        None \<Rightarrow> None
      | Some c \<Rightarrow>
          Some (c, map (\<lambda>i. (i, products d (item_productId i)))
                     (filter (\<lambda>i. item_cartId i = cart_id c) (cart_items d))))"

text \<open>
  \<^verbatim>\<open>Product.update({ stock: literal(`stock - ${quantity}`) }, { where: { id }, transaction })\<close>
  on the transaction's view of the product table.
\<close>

definition decrement_stock :: "(nat \<rightharpoonup> 'a product) \<Rightarrow> nat \<Rightarrow> int \<Rightarrow> (nat \<rightharpoonup> 'a product)" where
  "decrement_stock ps pid q =
     (case ps pid of
        None \<Rightarrow> ps
      | Some p \<Rightarrow> ps(pid \<mapsto> p\<lparr>product_stock := product_stock p - q\<rparr>))"

text \<open>
  How the loop over the cart lines is left early: \<^verbatim>\<open>product.stock\<close> on a missing product
  throws a \<^verbatim>\<open>TypeError\<close>; a line with too little stock ends the request with the product's
  name.
\<close>

datatype loop_exit = TypeError | InsufficientStock string

text \<open>
  The loop \<^verbatim>\<open>for (const item of items)\<close>. Its state is the transaction's product table, the
  running total and the snapshot built so far. The stock test reads the product as loaded
  with the cart. The list \<^verbatim>\<open>midtransItems\<close> is only sent to the gateway and is left out.
\<close>

fun reserve_lines ::
  "'a number_ops \<Rightarrow> (cart_item \<times> 'a product option) list \<Rightarrow> (nat \<rightharpoonup> 'a product) \<Rightarrow> 'a \<Rightarrow>
     'a order_item list \<Rightarrow> loop_exit + ((nat \<rightharpoonup> 'a product) \<times> 'a \<times> 'a order_item list)" where
  "reserve_lines ops [] ps amount snapshot = Inr (ps, amount, snapshot)"
| "reserve_lines ops ((item, None) # rest) ps amount snapshot = Inl TypeError"
| "reserve_lines ops ((item, Some product) # rest) ps amount snapshot =
     (if product_stock product < item_quantity item then
        Inl (InsufficientStock (product_name product))
      else
        reserve_lines ops rest
          (decrement_stock ps (item_productId item) (item_quantity item))
          (num_add ops amount (num_mul ops (product_price product) (item_quantity item)))
          (snapshot @ [\<lparr>oi_productId = item_productId item, oi_name = product_name product,
                         oi_price = product_price product, oi_quantity = item_quantity item\<rparr>]))"


text \<open>
  The lines at which that loop is left early: reading \<^verbatim>\<open>product.stock\<close> throws because the
  line has no product, or the test \<^verbatim>\<open>product.stock < item.quantity\<close> holds.
\<close>

definition offending_line :: "cart_item \<times> 'a product option \<Rightarrow> bool" where
  "offending_line l =
     (case snd l of
        None \<Rightarrow> True
      | Some product \<Rightarrow> product_stock product < item_quantity (fst l))"

text \<open>\<^verbatim>\<open>`ORDER-${Date.now()}-${userId}`\<close>\<close>

definition order_reference :: "nat \<Rightarrow> nat \<Rightarrow> string" where
  "order_reference now userId = ''ORDER-'' @ string_of_nat now @ ''-'' @ string_of_nat userId"

text \<open>
  \<^verbatim>\<open>checkout\<close>. Besides the store and the authenticated user's id it reads the clock
  (\<open>now\<close>, the value of \<^verbatim>\<open>Date.now()\<close>), the primary key the database assigns to the new
  order row (\<open>new_id\<close>) and the gateway. What is sent to the gateway (the reference, the
  rounded total, the items, the customer's name and e-mail address) reaches the program again
  only through the gateway's answer, which is arbitrary here. Writes made with \<^verbatim>\<open>{ transaction }\<close> go to the
  transaction's copy \<open>tx\<close> of the store; \<^verbatim>\<open>transaction.commit()\<close> makes the copy the store,
  \<^verbatim>\<open>transaction.rollback()\<close> drops it. Every exception ends in the \<^verbatim>\<open>catch\<close> block: rollback
  and status 500. Storage failures are not modelled here.
\<close>

definition checkout ::
  "'a number_ops \<Rightarrow> nat \<Rightarrow> nat \<Rightarrow> gateway \<Rightarrow> 'a db \<Rightarrow> nat \<Rightarrow> 'a db \<times> reply \<times> 'a created option" where
  "checkout ops now new_id snap d userId =
     (case users d userId of
        None \<Rightarrow> (d, message_reply 404 ''User not found'', None)
      | Some user \<Rightarrow>
         (case load_cart d userId of
            None \<Rightarrow> (d, message_reply 400 ''Cart is empty'', None)
          | Some (cart, lines) \<Rightarrow>
             if lines = [] then (d, message_reply 400 ''Cart is empty'', None)
             else
               (case reserve_lines ops lines (products d) (num_zero ops) [] of
                  Inl TypeError \<Rightarrow> (d, message_reply 500 ''Server error during checkout'', None)
                | Inl (InsufficientStock name) \<Rightarrow>
                    (d, message_reply 400 (''Insufficient stock for '' @ name), None)
                | Inr (ps, amount, snapshot) \<Rightarrow>
                    let orderId = order_reference now userId;
                        order = \<lparr>order_id = new_id, order_userId = userId, totalAmount = amount,
                                 status = Pending, midtransPaymentId = Some orderId,
                                 orderItems = snapshot, paymentType = None,
                                 transactionTime = None, settlementTime = None\<rparr>;
                        tx = d\<lparr>products := ps, orders := orders d @ [order]\<rparr>
                    in
                      (case outcome (createTransactionWithRetry snap 3) of
                         Inl err \<Rightarrow> (d, message_reply 500 ''Server error during checkout'', None)
                       | Inr payment \<Rightarrow>
                           (tx\<lparr>cart_items :=
                                 filter (\<lambda>i. item_cartId i \<noteq> cart_id cart) (cart_items tx)\<rparr>,
                            message_reply 201 ''Order created successfully'',
                            Some \<lparr>created_id = new_id, created_orderId = orderId,
                                  created_totalAmount = amount, created_status = Pending,
                                  created_payment = payment\<rparr>)))))"

section \<open>The webhook (middleware/webhookAuth.ts, controllers/orderController.ts)\<close>

text \<open>
  The fields of the notification body that the code reads. Midtrans sends each of them as
  a JSON string; \<open>None\<close> is a field the body does not have. Values of other JSON types
  are outside the model. On strings nothing in the middleware throws, so its
  \<^verbatim>\<open>catch\<close> block (status 500) has no counterpart here.
\<close>

record notification =
  n_order_id :: "string option"
  n_status_code :: "string option"
  n_gross_amount :: "string option"
  n_signature_key :: "string option"
  n_transaction_status :: "string option"
  n_fraud_status :: "string option"
  n_payment_type :: "string option"
  n_transaction_time :: "string option"
  n_settlement_time :: "string option"

text \<open>JavaScript's truthiness on such a field: \<^verbatim>\<open>undefined\<close> and \<^verbatim>\<open>''\<close> are falsy.\<close>

definition truthy :: "string option \<Rightarrow> bool" where
  "truthy v = (case v of None \<Rightarrow> False | Some s \<Rightarrow> s \<noteq> [])"

text \<open>
  \<^verbatim>\<open>verifySignature\<close>. The hash (\<^verbatim>\<open>sha512\<close>, hex digest, of Node's \<^verbatim>\<open>crypto\<close>) and the
  server key (an environment variable) are parameters.
\<close>

definition verifySignature ::
  "(string \<Rightarrow> string) \<Rightarrow> string \<Rightarrow> string \<Rightarrow> string \<Rightarrow> string \<Rightarrow> string \<Rightarrow> bool" where
  "verifySignature sha512 server_key orderId statusCode grossAmount signatureKey =
     (sha512 (orderId @ statusCode @ grossAmount @ server_key) = signatureKey)"

datatype auth_result = Next | Reject nat string

definition authenticateWebhook :: "(string \<Rightarrow> string) \<Rightarrow> string \<Rightarrow> notification \<Rightarrow> auth_result" where
  "authenticateWebhook sha512 server_key n =
     (if \<not> truthy (n_order_id n) \<or> \<not> truthy (n_status_code n) \<or> \<not> truthy (n_gross_amount n)
         \<or> \<not> truthy (n_signature_key n) then
        Reject 400 ''Missing required webhook fields''
      else
        (case (n_order_id n, n_status_code n, n_gross_amount n, n_signature_key n) of
           (Some orderId, Some statusCode, Some grossAmount, Some signatureKey) \<Rightarrow>
             if verifySignature sha512 server_key orderId statusCode grossAmount signatureKey
             then Next
             else Reject 401 ''Invalid signature - unauthorized webhook request''
         | _ \<Rightarrow> Reject 400 ''Missing required webhook fields''))"

text \<open>
  The storage operations of the handler, each of which may throw. A fault plan says which
  do.
\<close>

datatype storage_op =
  FindOrder | BeginTransaction | ParseItems | FindProduct nat | SaveProduct nat | SaveOrder

type_synonym faults = "storage_op \<Rightarrow> bool"

definition no_faults :: faults where
  "no_faults = (\<lambda>_. False)"

text \<open>
  The loop of \<^verbatim>\<open>rollbackStock\<close>: \<^verbatim>\<open>Product.findByPk\<close> reads the committed row (it is given no
  transaction), \<^verbatim>\<open>product.stock += item.quantity\<close> and \<^verbatim>\<open>product.save({ transaction })\<close>
  write the new stock of the row in the transaction. An exception leaves the loop, with
  the writes made so far still in the transaction.
\<close>

fun release_items ::
  "faults \<Rightarrow> (nat \<rightharpoonup> 'a product) \<Rightarrow> 'a order_item list \<Rightarrow> (nat \<rightharpoonup> int) \<Rightarrow> (nat \<rightharpoonup> int)" where
  "release_items fails committed [] tx = tx"
| "release_items fails committed (item # rest) tx =
     (if fails (FindProduct (oi_productId item)) then tx
      else
        (case committed (oi_productId item) of
           None \<Rightarrow> release_items fails committed rest tx
         | Some product \<Rightarrow>
             if fails (SaveProduct (oi_productId item)) then tx
             else release_items fails committed rest
                    (tx(oi_productId item \<mapsto> product_stock product + oi_quantity item))))"

text \<open>
  \<^verbatim>\<open>rollbackStock(orderItems, transaction)\<close>: the whole body is inside \<^verbatim>\<open>try\<close>, and the
  \<^verbatim>\<open>catch\<close> only logs. The result is the transaction with the writes made in it.
\<close>

definition rollbackStock ::
  "faults \<Rightarrow> 'a db \<Rightarrow> 'a order_item list \<Rightarrow> (nat \<rightharpoonup> int) \<Rightarrow> (nat \<rightharpoonup> int)" where
  "rollbackStock fails d items tx =
     (if fails ParseItems then tx else release_items fails (products d) items tx)"

text \<open>The position of the first row that satisfies a condition (\<^verbatim>\<open>findOne\<close>).\<close>

fun find_row :: "('r \<Rightarrow> bool) \<Rightarrow> 'r list \<Rightarrow> nat option" where
  "find_row P [] = None"
| "find_row P (x # xs) = (if P x then Some 0 else map_option Suc (find_row P xs))"

text \<open>The chain of \<^verbatim>\<open>if\<close>s that computes \<^verbatim>\<open>orderStatus\<close>, which starts as \<^verbatim>\<open>'pending'\<close>.\<close>

definition order_status_of :: "string option \<Rightarrow> string option \<Rightarrow> order_status" where
  "order_status_of transaction_status fraud_status =
     (if transaction_status = Some ''capture'' then
        (if fraud_status = Some ''challenge'' then Pending
         else if fraud_status = Some ''accept'' then Completed
         else Pending)
      else if transaction_status = Some ''settlement'' then Completed
      else if transaction_status = Some ''pending'' then Pending
      else if transaction_status = Some ''cancel'' \<or> transaction_status = Some ''deny''
              \<or> transaction_status = Some ''expire'' then Failed
      else Pending)"

text \<open>The branch that also calls \<^verbatim>\<open>rollbackStock\<close>.\<close>

definition releases_stock :: "string option \<Rightarrow> bool" where
  "releases_stock transaction_status =
     (transaction_status = Some ''cancel'' \<or> transaction_status = Some ''deny''
        \<or> transaction_status = Some ''expire'')"

text \<open>The assignments to the order instance between the lookup and \<^verbatim>\<open>order.save()\<close>.\<close>

definition apply_notification :: "notification \<Rightarrow> 'a order \<Rightarrow> 'a order" where
  "apply_notification n order =
     order\<lparr>status := order_status_of (n_transaction_status n) (n_fraud_status n),
           paymentType :=
             (if truthy (n_payment_type n) then n_payment_type n else paymentType order),
           transactionTime :=
             (if truthy (n_transaction_time n) then map_option Date (n_transaction_time n)
              else transactionTime order),
           settlementTime :=
             (if truthy (n_settlement_time n) then map_option Date (n_settlement_time n)
              else settlementTime order)\<rparr>"

text \<open>
  \<^verbatim>\<open>handlePaymentNotification\<close>. An exception of the lookup, of
  \<^verbatim>\<open>await sequelize.transaction()\<close> (evaluated as an argument, outside \<^verbatim>\<open>rollbackStock\<close>) or
  of \<^verbatim>\<open>order.save()\<close> reaches the handler's \<^verbatim>\<open>catch\<close>: status 500. The transaction begun for
  \<^verbatim>\<open>rollbackStock\<close> is neither committed nor rolled back, so it stays among the store's open
  transactions. A body without \<^verbatim>\<open>order_id\<close> does not pass the middleware; the ORM refuses
  an undefined value in a \<^verbatim>\<open>where\<close> clause.
\<close>

definition handlePaymentNotification :: "faults \<Rightarrow> 'a db \<Rightarrow> notification \<Rightarrow> 'a db \<times> reply" where
  "handlePaymentNotification fails d n =
     (if fails FindOrder then (d, message_reply 500 ''Server error processing notification'')
      else
        (case n_order_id n of
           None \<Rightarrow> (d, message_reply 500 ''Server error processing notification'')
         | Some reference \<Rightarrow>
            (case find_row (\<lambda>row. midtransPaymentId row = Some reference) (orders d) of
               None \<Rightarrow> (d, message_reply 404 ''Order not found'')
             | Some i \<Rightarrow>
                 let order = orders d ! i in
                 if releases_stock (n_transaction_status n) \<and> fails BeginTransaction then
                   (d, message_reply 500 ''Server error processing notification'')
                 else
                   let d1 = (if releases_stock (n_transaction_status n) then
                               d\<lparr>open_transactions := open_transactions d
                                     @ [rollbackStock fails d (orderItems order) Map.empty]\<rparr>
                             else d)
                   in
                     if fails SaveOrder then
                       (d1, message_reply 500 ''Server error processing notification'')
                     else
                       (d1\<lparr>orders := (orders d1)[i := apply_notification n order]\<rparr>,
                        message_reply 200 ''Notification processed successfully''))))"

text \<open>\<^verbatim>\<open>router.post('/webhook', authenticateWebhook, handlePaymentNotification)\<close>\<close>

definition webhook ::
  "(string \<Rightarrow> string) \<Rightarrow> string \<Rightarrow> faults \<Rightarrow> 'a db \<Rightarrow> notification \<Rightarrow> 'a db \<times> reply" where
  "webhook sha512 server_key fails d n =
     (case authenticateWebhook sha512 server_key n of
        Reject code msg \<Rightarrow> (d, message_reply code msg)
      | Next \<Rightarrow> handlePaymentNotification fails d n)"

section \<open>Concrete inputs\<close>

text \<open>
  The inputs at which the theorems below are instantiated. Amounts are integers
  (hundredths) with exact arithmetic, except in the store \<open>shop_dime\<close>, which has them
  as the program does.
\<close>

definition int_ops :: "int number_ops" where
  "int_ops = \<lparr>num_zero = 0, num_add = (+), num_mul = (*)\<rparr>"

definition accepting_gateway :: gateway where
  "accepting_gateway i = Inr \<lparr>token = ''tok'', redirect_url = ''https://pay.example/tok''\<rparr>"

definition failing_gateway :: gateway where
  "failing_gateway i = Inl \<lparr>transient = True, error_message = ''timeout''\<rparr>"

text \<open>A gateway that rejects the first call definitively and accepts the second.\<close>

definition rejecting_once_gateway :: gateway where
  "rejecting_once_gateway i =
     (if i = 0 then Inl \<lparr>transient = False, error_message = ''invalid request''\<rparr>
      else Inr \<lparr>token = ''tok'', redirect_url = ''https://pay.example/tok''\<rparr>)"

text \<open>A store with one customer, whose cart holds two pens and one bottle of ink.\<close>

definition shop :: "int db" where
  "shop =
     \<lparr>users = [1 \<mapsto> \<lparr>user_name = ''Ana'', user_email = ''ana@example.com''\<rparr>],
      carts = [\<lparr>cart_id = 1, cart_userId = 1\<rparr>],
      cart_items = [\<lparr>item_cartId = 1, item_productId = 1, item_quantity = 2\<rparr>,
                    \<lparr>item_cartId = 1, item_productId = 2, item_quantity = 1\<rparr>],
      products = [1 \<mapsto> \<lparr>product_name = ''Pen'', product_price = 150, product_stock = 5\<rparr>,
                  2 \<mapsto> \<lparr>product_name = ''Ink'', product_price = 990, product_stock = 3\<rparr>],
      orders = [],
      open_transactions = []\<rparr>"

text \<open>The order row that the checkout of that cart creates at clock reading 5.\<close>

definition pen_order :: "int order" where
  "pen_order =
     \<lparr>order_id = 1, order_userId = 1, totalAmount = 1290, status = Pending,
      midtransPaymentId = Some ''ORDER-5-1'',
      orderItems = [\<lparr>oi_productId = 1, oi_name = ''Pen'', oi_price = 150, oi_quantity = 2\<rparr>,
                    \<lparr>oi_productId = 2, oi_name = ''Ink'', oi_price = 990, oi_quantity = 1\<rparr>],
      paymentType = None, transactionTime = None, settlementTime = None\<rparr>"

text \<open>The store after that checkout.\<close>

definition shop_after_checkout :: "int db" where
  "shop_after_checkout =
     \<lparr>users = [1 \<mapsto> \<lparr>user_name = ''Ana'', user_email = ''ana@example.com''\<rparr>],
      carts = [\<lparr>cart_id = 1, cart_userId = 1\<rparr>],
      cart_items = [],
      products = [1 \<mapsto> \<lparr>product_name = ''Pen'', product_price = 150, product_stock = 3\<rparr>,
                  2 \<mapsto> \<lparr>product_name = ''Ink'', product_price = 990, product_stock = 2\<rparr>],
      orders = [pen_order],
      open_transactions = []\<rparr>"

text \<open>The same store once the order is paid.\<close>

definition shop_paid :: "int db" where
  "shop_paid = shop_after_checkout\<lparr>orders := [pen_order\<lparr>status := Completed\<rparr>]\<rparr>"

text \<open>The same customer with the cart filled again after the first checkout.\<close>

definition shop_refilled :: "int db" where
  "shop_refilled =
     shop_after_checkout
       \<lparr>cart_items := [\<lparr>item_cartId = 1, item_productId = 1, item_quantity = 1\<rparr>]\<rparr>"

text \<open>A store in which the second line of the cart asks for more ink than there is.\<close>

definition shop_short_of_ink :: "int db" where
  "shop_short_of_ink =
     shop\<lparr>cart_items := [\<lparr>item_cartId = 1, item_productId = 1, item_quantity = 2\<rparr>,
                          \<lparr>item_cartId = 1, item_productId = 2, item_quantity = 4\<rparr>]\<rparr>"

text \<open>
  A store in which the cart holds two lines for the same product, three pens each, when
  there are five pens. The cart lines have no unique key on cart and product.
\<close>

definition shop_two_pen_lines :: "int db" where
  "shop_two_pen_lines =
     shop\<lparr>cart_items := [\<lparr>item_cartId = 1, item_productId = 1, item_quantity = 3\<rparr>,
                          \<lparr>item_cartId = 1, item_productId = 1, item_quantity = 3\<rparr>]\<rparr>"


text \<open>A stand-in for the hash and the server key, and notifications signed with them.\<close>

definition toy_sha512 :: "string \<Rightarrow> string" where
  "toy_sha512 s = ''h('' @ s @ '')''"

definition toy_key :: string where
  "toy_key = ''secret''"

definition signed_note :: "string \<Rightarrow> notification" where
  "signed_note transaction_status =
     \<lparr>n_order_id = Some ''ORDER-5-1'', n_status_code = Some ''200'',
      n_gross_amount = Some ''12.90'',
      n_signature_key = Some ''h(ORDER-5-120012.90secret)'',
      n_transaction_status = Some transaction_status, n_fraud_status = None,
      n_payment_type = Some ''bank_transfer'',
      n_transaction_time = Some ''2024-05-01 10:00:00'', n_settlement_time = None\<rparr>"

definition expire_note :: notification where
  "expire_note = signed_note ''expire''"

definition settlement_note :: notification where
  "settlement_note = signed_note ''settlement''"

definition pending_note :: notification where
  "pending_note = signed_note ''pending''"

text \<open>A notification with all fields but an empty signature.\<close>

definition unsigned_note :: notification where
  "unsigned_note = expire_note\<lparr>n_signature_key := Some []\<rparr>"

text \<open>A notification with a signature that is not the hash.\<close>

definition forged_note :: notification where
  "forged_note = expire_note\<lparr>n_signature_key := Some ''forged''\<rparr>"

text \<open>Fault plans: saving the row of product 1 fails; saving the order fails.\<close>

definition pen_save_fails :: faults where
  "pen_save_fails op = (op = SaveProduct 1)"

definition order_save_fails :: faults where
  "order_save_fails op = (op = SaveOrder)"

section \<open>Decimal rendering is injective\<close>

lemma digit_char_inj: "a < 10 \<Longrightarrow> b < 10 \<Longrightarrow> digit_char a = digit_char b \<Longrightarrow> a = b"
proof -
  have enum: "n < 10 \<Longrightarrow> n \<in> {0, 1, 2, 3, 4, 5, 6, 7, 8, 9}" for n :: nat
    by auto
  assume "a < 10" "b < 10" "digit_char a = digit_char b"
  with enum [of a] enum [of b] show ?thesis
    by (auto simp: digit_char_def nth_Cons' split: if_splits)
qed

lemma digit_char_not_dash: "d < 10 \<Longrightarrow> digit_char d \<noteq> CHR ''-''"
proof -
  have enum: "n < 10 \<Longrightarrow> n \<in> {0, 1, 2, 3, 4, 5, 6, 7, 8, 9}" for n :: nat
    by auto
  assume "d < 10"
  with enum [of d] show ?thesis
    by (auto simp: digit_char_def nth_Cons')
qed

lemma string_of_nat_nonempty: "string_of_nat n \<noteq> []"
  by (subst string_of_nat.simps) simp

lemma string_of_nat_no_dash: "CHR ''-'' \<notin> set (string_of_nat n)"
proof (induction n rule: string_of_nat.induct)
  case (1 n)
  show ?case
  proof (cases "n < 10")
    case True
    then show ?thesis
      using digit_char_not_dash [of n] by (subst string_of_nat.simps) auto
  next
    case False
    then show ?thesis
      using 1 digit_char_not_dash [of "n mod 10"] by (subst string_of_nat.simps) auto
  qed
qed

lemma string_of_nat_length_one: "length (string_of_nat n) = 1 \<longleftrightarrow> n < 10"
  using string_of_nat_nonempty [of "n div 10"]
  by (subst string_of_nat.simps) (cases "string_of_nat (n div 10)"; simp)

lemma string_of_nat_inj: "string_of_nat m = string_of_nat n \<Longrightarrow> m = n"
proof (induction m arbitrary: n rule: string_of_nat.induct)
  case (1 m)
  show ?case
  proof (cases "m < 10")
    case True
    with 1(2) have "n < 10"
      using string_of_nat_length_one [of n] string_of_nat_length_one [of m] by simp
    with True 1(2) show ?thesis
      by (simp add: string_of_nat.simps [of m] string_of_nat.simps [of n] digit_char_inj)
  next
    case False
    with 1(2) have n: "\<not> n < 10"
      using string_of_nat_length_one [of n] string_of_nat_length_one [of m] by simp
    with False 1(2) have eq: "string_of_nat (m div 10) = string_of_nat (n div 10)"
      and dg: "digit_char (m mod 10) = digit_char (n mod 10)"
      by (simp_all add: string_of_nat.simps [of m] string_of_nat.simps [of n])
    from 1(1) [OF False eq] have "m div 10 = n div 10" .
    moreover from dg have "m mod 10 = n mod 10"
      by (intro digit_char_inj) simp_all
    ultimately show ?thesis
      by (metis div_mult_mod_eq)
  qed
qed

lemma dash_split:
  assumes "CHR ''-'' \<notin> set a" "CHR ''-'' \<notin> set a'"
    and "a @ CHR ''-'' # b = a' @ CHR ''-'' # b'"
  shows "a = a' \<and> b = b'"
  using assms by (auto simp: append_eq_append_conv2 append_eq_Cons_conv Cons_eq_append_conv)

lemma order_reference_inj:
  "order_reference now userId = order_reference now' userId' \<longleftrightarrow> now = now' \<and> userId = userId'"
proof
  assume "order_reference now userId = order_reference now' userId'"
  then have "string_of_nat now @ CHR ''-'' # string_of_nat userId
      = string_of_nat now' @ CHR ''-'' # string_of_nat userId'"
    by (simp add: order_reference_def)
  from dash_split [OF string_of_nat_no_dash string_of_nat_no_dash this]
  show "now = now' \<and> userId = userId'"
    by (auto dest: string_of_nat_inj)
qed simp

section \<open>The retry loop\<close>

lemma retry_three_unfold:
  "createTransactionWithRetry snap 3 =
     (case snap 0 of
        Inr r \<Rightarrow> \<lparr>outcome = Inr r, calls = 1, sleeps = []\<rparr>
      | Inl e0 \<Rightarrow>
         (case snap 1 of
            Inr r \<Rightarrow> \<lparr>outcome = Inr r, calls = 2, sleeps = [1000]\<rparr>
          | Inl e1 \<Rightarrow>
             (case snap 2 of
                Inr r \<Rightarrow> \<lparr>outcome = Inr r, calls = 3, sleeps = [1000, 2000]\<rparr>
              | Inl e2 \<Rightarrow>
                  \<lparr>outcome = Inl (''Failed to create payment transaction after ''
                      @ string_of_nat 3 @ '' retries: '' @ error_message e2),
                   calls = 3, sleeps = [1000, 2000]\<rparr>)))"
proof -
  have s2: "retry_from snap 3 (Suc (Suc 0)) sl =
      (case snap 2 of
         Inr r \<Rightarrow> \<lparr>outcome = Inr r, calls = 3, sleeps = sl\<rparr>
       | Inl e2 \<Rightarrow> \<lparr>outcome = Inl (''Failed to create payment transaction after ''
                      @ string_of_nat 3 @ '' retries: '' @ error_message e2),
                   calls = 3, sleeps = sl\<rparr>)" for sl
    by (subst retry_from.simps) (simp add: numeral_2_eq_2 split: sum.splits)
  have s1: "retry_from snap 3 (Suc 0) sl =
      (case snap 1 of
         Inr r \<Rightarrow> \<lparr>outcome = Inr r, calls = 2, sleeps = sl\<rparr>
       | Inl e1 \<Rightarrow> retry_from snap 3 (Suc (Suc 0)) (sl @ [2000]))" for sl
    by (subst retry_from.simps) (simp add: numeral_2_eq_2 split: sum.splits)
  have s0: "retry_from snap 3 0 sl =
      (case snap 0 of
         Inr r \<Rightarrow> \<lparr>outcome = Inr r, calls = 1, sleeps = sl\<rparr>
       | Inl e1 \<Rightarrow> retry_from snap 3 (Suc 0) (sl @ [1000]))" for sl
    by (subst retry_from.simps) (simp add: numeral_2_eq_2 split: sum.splits)
  show ?thesis
    unfolding createTransactionWithRetry_def s0 s1 s2
    by (simp add: numeral_2_eq_2 split: sum.splits)
qed

text \<open>The outcome of the run is an error exactly when all three calls fail.\<close>

lemma retry_three_outcome:
  "isl (outcome (createTransactionWithRetry snap 3))
     \<longleftrightarrow> isl (snap 0) \<and> isl (snap 1) \<and> isl (snap 2)"
  by (simp add: retry_three_unfold split: sum.splits)

text \<open>
  A run of the loop from counter \<open>i\<close>: the calls it makes, the delays it sleeps and when it
  ends with an error.
\<close>

lemma retry_from_run:
  "i \<le> maxRetries \<Longrightarrow>
   i \<le> calls (retry_from snap maxRetries i slept)
   \<and> calls (retry_from snap maxRetries i slept) \<le> maxRetries
   \<and> (i < maxRetries \<longrightarrow> i < calls (retry_from snap maxRetries i slept))
   \<and> sleeps (retry_from snap maxRetries i slept)
       = slept @ map (\<lambda>k. min (1000 * 2 ^ k) 5000)
                  [i..<calls (retry_from snap maxRetries i slept) - 1]
   \<and> (isl (outcome (retry_from snap maxRetries i slept))
        \<longleftrightarrow> (\<forall>j. i \<le> j \<and> j < maxRetries \<longrightarrow> isl (snap j)))
   \<and> (\<forall>j. i \<le> j \<and> j < calls (retry_from snap maxRetries i slept) - 1 \<longrightarrow> isl (snap j))"
proof (induction snap maxRetries i slept rule: retry_from.induct)
  case (1 snap maxRetries i slept)
  show ?case
  proof (cases "i < maxRetries")
    case False
    then have step: "retry_from snap maxRetries i slept
        = \<lparr>outcome = Inl ''Failed to create payment transaction'', calls = i, sleeps = slept\<rparr>"
      by (subst retry_from.simps) simp
    from False 1(2) show ?thesis
      unfolding step by auto
  next
    case lt: True
    show ?thesis
    proof (cases "snap i")
      case (Inr response)
      with lt have step: "retry_from snap maxRetries i slept
          = \<lparr>outcome = Inr response, calls = i + 1, sleeps = slept\<rparr>"
        by (subst retry_from.simps) simp
      from lt Inr show ?thesis
        unfolding step by auto
    next
      case (Inl err)
      show ?thesis
      proof (cases "i = maxRetries - 1")
        case True
        with lt Inl have step: "retry_from snap maxRetries i slept
          = \<lparr>outcome = Inl (''Failed to create payment transaction after ''
                    @ string_of_nat maxRetries @ '' retries: '' @ error_message err),
             calls = i + 1, sleeps = slept\<rparr>"
          by (subst retry_from.simps) simp
        have only: "i \<le> j \<and> j < maxRetries \<longleftrightarrow> j = i" for j
          using True lt by auto
        from lt Inl show ?thesis
          unfolding step only by auto
      next
        case False
        with lt have le: "i + 1 \<le> maxRetries" and lt': "i + 1 < maxRetries"
          by simp_all
        let ?r = "retry_from snap maxRetries (i + 1) (slept @ [min (1000 * 2 ^ i) 5000])"
        have step: "retry_from snap maxRetries i slept = ?r"
          using lt Inl False by (subst retry_from.simps) simp
        note IH = 1(1) [OF lt Inl False le]
        from IH lt' have c: "i + 1 < calls ?r" "calls ?r \<le> maxRetries"
          by simp_all
        then have upt: "[i..<calls ?r - 1] = i # [i + 1..<calls ?r - 1]"
          by (simp add: upt_conv_Cons)
        have first: "i \<le> j \<longleftrightarrow> j = i \<or> i + 1 \<le> j" for j
          by auto
        have all: "(\<forall>j. i \<le> j \<and> j < maxRetries \<longrightarrow> isl (snap j))
            \<longleftrightarrow> (\<forall>j. i + 1 \<le> j \<and> j < maxRetries \<longrightarrow> isl (snap j))"
          unfolding first [of _] using Inl by auto
        have pre: "(\<forall>j. i \<le> j \<and> j < calls ?r - 1 \<longrightarrow> isl (snap j))
            \<longleftrightarrow> (\<forall>j. i + 1 \<le> j \<and> j < calls ?r - 1 \<longrightarrow> isl (snap j))"
          unfolding first [of _] using Inl by auto
        from IH c show ?thesis
          unfolding step all pre upt by simp
      qed
    qed
  qed
qed

section \<open>Claims about the gateway client\<close>

text \<open>
  Claim C6, as amended. The client calls the gateway at most \<open>maxRetries\<close> times (three
  times with the default bound, which is the bound checkout uses) and calls again after
  every failed call, whatever the kind of the failure: all calls before the last one made
  have failed, and nothing but the failure of a call decides whether the next is made.
  After the failed call \<open>i\<close> (counted from 0) it sleeps \<open>min (1000 * 2 ^ i) 5000\<close>
  milliseconds, never after the last call: with the default bound that is 1000 ms after
  the first failure and 2000 ms after the second. It ends with an error exactly when all
  \<open>maxRetries\<close> calls fail.
\<close>

theorem retry_every_failure:
  "calls (createTransactionWithRetry snap maxRetries) \<le> maxRetries
   \<and> (0 < maxRetries \<longrightarrow> 0 < calls (createTransactionWithRetry snap maxRetries))
   \<and> (\<forall>j. j < calls (createTransactionWithRetry snap maxRetries) - 1 \<longrightarrow> isl (snap j))
   \<and> sleeps (createTransactionWithRetry snap maxRetries)
       = map (\<lambda>k. min (1000 * 2 ^ k) 5000)
           [0..<calls (createTransactionWithRetry snap maxRetries) - 1]
   \<and> (isl (outcome (createTransactionWithRetry snap maxRetries))
        \<longleftrightarrow> (\<forall>j. j < maxRetries \<longrightarrow> isl (snap j)))
   \<and> calls (createTransactionWithRetry snap 3)
       = (if isl (snap 0) then if isl (snap 1) then 3 else 2 else 1)
   \<and> sleeps (createTransactionWithRetry snap 3)
       = take (calls (createTransactionWithRetry snap 3) - 1) [1000, 2000]"
proof -
  have "0 \<le> maxRetries"
    by simp
  from retry_from_run [OF this, of snap "[]"]
  have general: "calls (createTransactionWithRetry snap maxRetries) \<le> maxRetries
   \<and> (0 < maxRetries \<longrightarrow> 0 < calls (createTransactionWithRetry snap maxRetries))
   \<and> (\<forall>j. j < calls (createTransactionWithRetry snap maxRetries) - 1 \<longrightarrow> isl (snap j))
   \<and> sleeps (createTransactionWithRetry snap maxRetries)
       = map (\<lambda>k. min (1000 * 2 ^ k) 5000)
           [0..<calls (createTransactionWithRetry snap maxRetries) - 1]
   \<and> (isl (outcome (createTransactionWithRetry snap maxRetries))
        \<longleftrightarrow> (\<forall>j. j < maxRetries \<longrightarrow> isl (snap j)))"
    by (simp add: createTransactionWithRetry_def)
  have three: "calls (createTransactionWithRetry snap 3)
       = (if isl (snap 0) then if isl (snap 1) then 3 else 2 else 1)
   \<and> sleeps (createTransactionWithRetry snap 3)
       = take (calls (createTransactionWithRetry snap 3) - 1) [1000, 2000]"
    by (simp add: retry_three_unfold split: sum.splits)
  from general three show ?thesis
    by blast
qed

text \<open>
  The theorem at the default bound and a gateway whose every call times out: three calls,
  delays of one and two seconds, and an error.
\<close>

theorem retry_every_failure_witness:
  "(0::nat) < 3
   \<and> isl (failing_gateway 0) \<and> isl (failing_gateway 1) \<and> isl (failing_gateway 2)
   \<and> calls (createTransactionWithRetry failing_gateway 3) = 3
   \<and> sleeps (createTransactionWithRetry failing_gateway 3) = [1000, 2000]
   \<and> isl (outcome (createTransactionWithRetry failing_gateway 3))"
proof -
  have g: "isl (failing_gateway j)" for j
    by (simp add: failing_gateway_def)
  note run = retry_every_failure [of failing_gateway 3]
  from run g have c: "calls (createTransactionWithRetry failing_gateway 3) = 3"
    by simp
  from run have "sleeps (createTransactionWithRetry failing_gateway 3)
           = take (calls (createTransactionWithRetry failing_gateway 3) - 1) [1000, 2000]"
    by blast
  with c have s: "sleeps (createTransactionWithRetry failing_gateway 3) = [1000, 2000]"
    by simp
  from run g have "isl (outcome (createTransactionWithRetry failing_gateway 3))"
    by blast
  with c s have "calls (createTransactionWithRetry failing_gateway 3) = 3
     \<and> sleeps (createTransactionWithRetry failing_gateway 3) = [1000, 2000]
     \<and> isl (outcome (createTransactionWithRetry failing_gateway 3))"
    by blast
  with g show ?thesis
    by simp
qed

text \<open>
  Claim C6 as stated fails: a definitive rejection is retried. The gateway rejects the
  first call with a failure that is not transient; the client sleeps one second, calls a
  second time and returns the session of the second call.
\<close>

theorem retry_definitive_rejection:
  "rejecting_once_gateway 0 = Inl \<lparr>transient = False, error_message = ''invalid request''\<rparr>
   \<and> calls (createTransactionWithRetry rejecting_once_gateway 3) = 2
   \<and> sleeps (createTransactionWithRetry rejecting_once_gateway 3) = [1000]
   \<and> \<not> isl (outcome (createTransactionWithRetry rejecting_once_gateway 3))"
  by (simp add: retry_three_unfold rejecting_once_gateway_def)

section \<open>Checkout\<close>

lemma offending_line_pair:
  "offending_line (item, p) =
     (case p of None \<Rightarrow> True | Some product \<Rightarrow> product_stock product < item_quantity item)"
  by (simp add: offending_line_def split: option.splits)

text \<open>The loop over the lines is left at the first offending line.\<close>

lemma reserve_lines_offending:
  "find offending_line lines = Some (item, p) \<Longrightarrow>
   reserve_lines ops lines ps amount snapshot =
     (case p of
        None \<Rightarrow> Inl TypeError
      | Some product \<Rightarrow> Inl (InsufficientStock (product_name product)))"
proof (induction lines arbitrary: ps amount snapshot)
  case Nil
  then show ?case by simp
next
  case (Cons l lines)
  obtain it q where l: "l = (it, q)" by (cases l)
  show ?case
  proof (cases q)
    case None
    with Cons.prems l show ?thesis by (simp add: offending_line_pair)
  next
    case (Some product)
    with Cons l show ?thesis
      by (auto simp: offending_line_pair split: if_splits)
  qed
qed

text \<open>Without an offending line the loop runs to its end.\<close>

lemma reserve_lines_no_offending:
  "find offending_line lines = None \<Longrightarrow> \<exists>r. reserve_lines ops lines ps amount snapshot = Inr r"
proof (induction lines arbitrary: ps amount snapshot)
  case Nil
  then show ?case by simp
next
  case (Cons l lines)
  obtain it q where l: "l = (it, q)" by (cases l)
  from Cons.prems l obtain product where q: "q = Some product"
    and ok: "\<not> product_stock product < item_quantity it"
    and rest: "find offending_line lines = None"
    by (cases q) (auto simp: offending_line_pair split: if_splits)
  from Cons.IH [OF rest] l q ok show ?case by simp
qed

lemma find_offending_nonempty: "find offending_line lines = Some l \<Longrightarrow> lines \<noteq> []"
  by (cases lines) simp_all

text \<open>A checkout that answers 201 has appended one pending row with the fresh reference.\<close>

lemma checkout_created:
  assumes "http_status (fst (snd (checkout ops now new_id snap d userId))) = 201"
  shows "\<exists>row. orders (fst (checkout ops now new_id snap d userId)) = orders d @ [row]
           \<and> midtransPaymentId row = Some (order_reference now userId)
           \<and> status row = Pending \<and> order_userId row = userId"
  using assms
  by (auto simp: checkout_def Let_def message_reply_def
      split: option.splits prod.splits if_splits sum.splits loop_exit.splits)

subsection \<open>Checkout on the concrete stores\<close>

lemma load_short:
  "load_cart shop_short_of_ink 1 =
     Some (\<lparr>cart_id = 1, cart_userId = 1\<rparr>,
       [(\<lparr>item_cartId = 1, item_productId = 1, item_quantity = 2\<rparr>,
         Some \<lparr>product_name = ''Pen'', product_price = 150, product_stock = 5\<rparr>),
        (\<lparr>item_cartId = 1, item_productId = 2, item_quantity = 4\<rparr>,
         Some \<lparr>product_name = ''Ink'', product_price = 990, product_stock = 3\<rparr>)])"
  by (simp add: load_cart_def shop_short_of_ink_def shop_def)

lemma load_shop:
  "load_cart shop 1 =
     Some (\<lparr>cart_id = 1, cart_userId = 1\<rparr>,
       [(\<lparr>item_cartId = 1, item_productId = 1, item_quantity = 2\<rparr>,
         Some \<lparr>product_name = ''Pen'', product_price = 150, product_stock = 5\<rparr>),
        (\<lparr>item_cartId = 1, item_productId = 2, item_quantity = 1\<rparr>,
         Some \<lparr>product_name = ''Ink'', product_price = 990, product_stock = 3\<rparr>)])"
  by (simp add: load_cart_def shop_def)

lemma checkout_shop:
  "checkout int_ops 5 1 accepting_gateway shop 1 =
     (shop_after_checkout, message_reply 201 ''Order created successfully'',
      Some \<lparr>created_id = 1, created_orderId = ''ORDER-5-1'', created_totalAmount = 1290,
            created_status = Pending,
            created_payment = \<lparr>token = ''tok'', redirect_url = ''https://pay.example/tok''\<rparr>\<rparr>)"
  by (simp add: checkout_def load_cart_def shop_def int_ops_def decrement_stock_def
      retry_three_unfold accepting_gateway_def shop_after_checkout_def pen_order_def
      order_reference_def string_of_nat.simps digit_char_def fun_upd_twist Let_def)

lemma checkout_refilled:
  "map midtransPaymentId (orders (fst (checkout int_ops 5 2 accepting_gateway shop_refilled 1)))
     = [Some ''ORDER-5-1'', Some ''ORDER-5-1'']
   \<and> http_status (fst (snd (checkout int_ops 5 2 accepting_gateway shop_refilled 1))) = 201"
  by (simp add: checkout_def load_cart_def int_ops_def decrement_stock_def
      retry_three_unfold accepting_gateway_def shop_after_checkout_def pen_order_def shop_refilled_def
      order_reference_def string_of_nat.simps digit_char_def Let_def message_reply_def)

subsection \<open>Claim C5: a line that asks for more than the stock\<close>

text \<open>
  What the loop gets right. When the customer exists and the cart as loaded contains an
  offending line, the checkout ends at the first such line in cart order, and the store is
  left exactly as it was: no decrement of any line is committed. If the line has its
  product, the answer is 400 with the message \<open>Insufficient stock for\<close> followed by the
  product's name. (A line without product, which the foreign key of the cart lines
  excludes, would end in the \<^verbatim>\<open>catch\<close> block.)
\<close>

lemma checkout_offending_line:
  assumes "users d userId = Some u"
    and "load_cart d userId = Some (cart, lines)"
    and "l \<in> set lines" and "offending_line l"
  shows "\<exists>item p. find offending_line lines = Some (item, p) \<and> offending_line (item, p)
           \<and> checkout ops now new_id snap d userId =
               (d,
                (case p of
                   None \<Rightarrow> message_reply 500 ''Server error during checkout''
                 | Some product \<Rightarrow>
                     message_reply 400 (''Insufficient stock for '' @ product_name product)),
                None)"
proof -
  from assms(3,4) have "find offending_line lines \<noteq> None"
    unfolding find_None_iff by blast
  then obtain x where "find offending_line lines = Some x"
    by blast
  then obtain item p where f: "find offending_line lines = Some (item, p)"
    by (cases x) blast
  then have off: "offending_line (item, p)"
    by (auto simp: find_Some_iff)
  from f have ne: "lines \<noteq> []" by (rule find_offending_nonempty)
  have "checkout ops now new_id snap d userId =
               (d,
                (case p of
                   None \<Rightarrow> message_reply 500 ''Server error during checkout''
                 | Some product \<Rightarrow>
                     message_reply 400 (''Insufficient stock for '' @ product_name product)),
                None)"
    using assms(1,2) ne reserve_lines_offending [OF f, of ops "products d" "num_zero ops" "[]"]
    by (cases p) (simp_all add: checkout_def)
  with f off show ?thesis by blast
qed

text \<open>
  At the store whose cart asks for four bottles of ink when there are three: the first line
  (two pens of five) passes, the second aborts the checkout with the product's name, and
  the pens' stock is not decremented.
\<close>

lemma checkout_short_of_ink:
  "checkout int_ops 5 1 accepting_gateway shop_short_of_ink 1
     = (shop_short_of_ink, message_reply 400 ''Insufficient stock for Ink'', None)"
proof -
  have u: "users shop_short_of_ink 1 = Some \<lparr>user_name = ''Ana'', user_email = ''ana@example.com''\<rparr>"
    by (simp add: shop_short_of_ink_def shop_def)
  have off: "offending_line (\<lparr>item_cartId = 1, item_productId = 2, item_quantity = 4\<rparr>,
         Some \<lparr>product_name = ''Ink'', product_price = 990, product_stock = (3::int)\<rparr>)"
    by (simp add: offending_line_def)
  have mem: "(\<lparr>item_cartId = 1, item_productId = 2, item_quantity = 4\<rparr>,
         Some \<lparr>product_name = ''Ink'', product_price = 990, product_stock = (3::int)\<rparr>)
     \<in> set [(\<lparr>item_cartId = 1, item_productId = 1, item_quantity = 2\<rparr>,
         Some \<lparr>product_name = ''Pen'', product_price = 150, product_stock = 5\<rparr>),
        (\<lparr>item_cartId = 1, item_productId = 2, item_quantity = 4\<rparr>,
         Some \<lparr>product_name = ''Ink'', product_price = 990, product_stock = 3\<rparr>)]"
    by simp
  from checkout_offending_line [OF u load_short mem off, of int_ops 5 1 accepting_gateway]
  show ?thesis
    using u off by (auto simp: offending_line_pair)
qed

text \<open>
  Claim C5 is broken by the code where the cart holds two lines for the same product. The
  stock test of every line reads the product as loaded with the cart, before any
  decrement of this checkout, while the decrements add up in the database. With five
  pens in stock and two lines of three pens each, the second line asks for three pens
  when two are left; the checkout does not abort but answers 201 and commits both
  decrements, which leaves the stock at minus one.
\<close>

theorem checkout_same_product_twice:
  "map item_productId (cart_items shop_two_pen_lines) = [1, 1]
   \<and> map item_quantity (cart_items shop_two_pen_lines) = [3, 3]
   \<and> map_option product_stock (products shop_two_pen_lines 1) = Some 5
   \<and> http_status (fst (snd (checkout int_ops 5 1 accepting_gateway shop_two_pen_lines 1))) = 201
   \<and> map_option product_stock
        (products (fst (checkout int_ops 5 1 accepting_gateway shop_two_pen_lines 1)) 1)
       = Some (- 1)"
  by (simp add: checkout_def load_cart_def shop_two_pen_lines_def shop_def int_ops_def
      decrement_stock_def retry_three_unfold accepting_gateway_def Let_def message_reply_def)

subsection \<open>Claim C2: the gateway fails\<close>

text \<open>
  Claim C2, as amended. When a checkout reaches the gateway (the customer exists, the cart
  has lines, none of them offending) and all three calls of the gateway fail, the
  transaction is rolled back: the store, and with it the stock, the order rows and the
  cart, is exactly as before. The customer receives status 500 with the message
  \<open>Server error during checkout\<close>.
\<close>

theorem checkout_gateway_failure:
  assumes "users d userId = Some u"
    and "load_cart d userId = Some (cart, lines)"
    and "lines \<noteq> []"
    and "find offending_line lines = None"
    and "isl (snap 0)" and "isl (snap 1)" and "isl (snap 2)"
  shows "checkout ops now new_id snap d userId
           = (d, message_reply 500 ''Server error during checkout'', None)"
proof -
  from reserve_lines_no_offending [OF assms(4)]
  obtain ps amount snapshot
    where r: "reserve_lines ops lines (products d) (num_zero ops) [] = Inr (ps, amount, snapshot)"
    by (metis prod_cases3)
  from assms(5-7) obtain msg where "outcome (createTransactionWithRetry snap 3) = Inl msg"
    using retry_three_outcome [of snap] by (cases "outcome (createTransactionWithRetry snap 3)") auto
  with assms(1-3) r show ?thesis
    by (simp add: checkout_def Let_def)
qed

text \<open>
  The theorem at the store with two pens and one bottle of ink in the cart and a gateway
  whose every call times out.
\<close>

theorem checkout_gateway_failure_witness:
  "users shop 1 = Some \<lparr>user_name = ''Ana'', user_email = ''ana@example.com''\<rparr>
   \<and> isl (failing_gateway 0) \<and> isl (failing_gateway 1) \<and> isl (failing_gateway 2)
   \<and> checkout int_ops 5 1 failing_gateway shop 1
       = (shop, message_reply 500 ''Server error during checkout'', None)"
proof -
  have u: "users shop 1 = Some \<lparr>user_name = ''Ana'', user_email = ''ana@example.com''\<rparr>"
    by (simp add: shop_def)
  have ne: "[(\<lparr>item_cartId = 1, item_productId = 1, item_quantity = 2\<rparr>,
         Some \<lparr>product_name = ''Pen'', product_price = 150, product_stock = (5::int)\<rparr>),
        (\<lparr>item_cartId = 1, item_productId = 2, item_quantity = 1\<rparr>,
         Some \<lparr>product_name = ''Ink'', product_price = 990, product_stock = 3\<rparr>)] \<noteq> []"
    by simp
  have ok: "find offending_line [(\<lparr>item_cartId = 1, item_productId = 1, item_quantity = 2\<rparr>,
         Some \<lparr>product_name = ''Pen'', product_price = 150, product_stock = (5::int)\<rparr>),
        (\<lparr>item_cartId = 1, item_productId = 2, item_quantity = 1\<rparr>,
         Some \<lparr>product_name = ''Ink'', product_price = 990, product_stock = 3\<rparr>)] = None"
    by (simp add: offending_line_def)
  have g: "isl (failing_gateway 0)" "isl (failing_gateway 1)" "isl (failing_gateway 2)"
    by (simp_all add: failing_gateway_def)
  from checkout_gateway_failure [OF u load_shop ne ok g, of int_ops 5 1] u g
  show ?thesis by simp
qed

text \<open>
  Claim C2 as stated fails in the status: with a gateway whose every call times out, the
  retries are exhausted and the customer receives 500, not 502.
\<close>

theorem checkout_gateway_failure_status:
  "isl (outcome (createTransactionWithRetry failing_gateway 3))
   \<and> http_status (fst (snd (checkout int_ops 5 1 failing_gateway shop 1))) = 500
   \<and> http_status (fst (snd (checkout int_ops 5 1 failing_gateway shop 1))) \<noteq> 502"
  by (simp add: checkout_def load_cart_def shop_def int_ops_def decrement_stock_def
      retry_three_unfold failing_gateway_def message_reply_def)

subsection \<open>Claim C8: the payment reference\<close>

text \<open>
  Claim C8, as amended. A checkout that succeeds appends one order row, whose reference is
  \<open>ORDER-\<close>, the clock reading in milliseconds, a dash and the customer's id. The
  references of two successful checkouts are equal exactly when both the clock readings
  and the customers are the same: they are distinct whenever the checkouts differ in the
  customer or in the millisecond at which the reference is generated.
\<close>

theorem checkout_references:
  assumes "http_status (fst (snd (checkout ops now new_id snap d userId))) = 201"
    and "http_status (fst (snd (checkout ops' now' new_id' snap' d' userId'))) = 201"
  shows "orders (fst (checkout ops now new_id snap d userId))
           = orders d @ [last (orders (fst (checkout ops now new_id snap d userId)))]
       \<and> midtransPaymentId (last (orders (fst (checkout ops now new_id snap d userId))))
           = Some (order_reference now userId)
       \<and> (midtransPaymentId (last (orders (fst (checkout ops now new_id snap d userId))))
            = midtransPaymentId (last (orders (fst (checkout ops' now' new_id' snap' d' userId'))))
          \<longleftrightarrow> now = now' \<and> userId = userId')"
proof -
  from checkout_created [OF assms(1)] obtain row
    where r: "orders (fst (checkout ops now new_id snap d userId)) = orders d @ [row]"
      "midtransPaymentId row = Some (order_reference now userId)"
    by blast
  from checkout_created [OF assms(2)] obtain row'
    where r': "orders (fst (checkout ops' now' new_id' snap' d' userId')) = orders d' @ [row']"
      "midtransPaymentId row' = Some (order_reference now' userId')"
    by blast
  from r r' show ?thesis
    by (simp add: order_reference_inj)
qed

text \<open>
  The theorem at two checkouts of the same customer, the second one millisecond after the
  first: the references differ.
\<close>

theorem checkout_references_witness:
  "http_status (fst (snd (checkout int_ops 5 1 accepting_gateway shop 1))) = 201
   \<and> http_status (fst (snd (checkout int_ops 6 2 accepting_gateway shop_refilled 1))) = 201
   \<and> midtransPaymentId (last (orders (fst (checkout int_ops 5 1 accepting_gateway shop 1))))
       \<noteq> midtransPaymentId
            (last (orders (fst (checkout int_ops 6 2 accepting_gateway shop_refilled 1))))"
proof -
  have a: "http_status (fst (snd (checkout int_ops 5 1 accepting_gateway shop 1))) = 201"
    using checkout_shop by (simp add: message_reply_def)
  have b: "http_status (fst (snd (checkout int_ops 6 2 accepting_gateway shop_refilled 1))) = 201"
    by (simp add: checkout_def load_cart_def int_ops_def decrement_stock_def
      retry_three_unfold accepting_gateway_def shop_after_checkout_def pen_order_def shop_refilled_def
      Let_def message_reply_def)
  from checkout_references [OF a b]
  have "midtransPaymentId (last (orders (fst (checkout int_ops 5 1 accepting_gateway shop 1))))
       = midtransPaymentId
            (last (orders (fst (checkout int_ops 6 2 accepting_gateway shop_refilled 1))))
       \<longleftrightarrow> (5::nat) = 6 \<and> (1::nat) = 1"
    by blast
  then have "midtransPaymentId (last (orders (fst (checkout int_ops 5 1 accepting_gateway shop 1))))
       \<noteq> midtransPaymentId
            (last (orders (fst (checkout int_ops 6 2 accepting_gateway shop_refilled 1))))"
    by simp
  with a b show ?thesis
    by blast
qed

text \<open>
  Claim C8 as stated fails for two checkouts of the same customer at the same clock
  reading (\<^verbatim>\<open>Date.now()\<close> is the wall clock in milliseconds; it is not monotonic). The
  customer checks out at reading 5, fills the cart again and checks out once more at
  reading 5. Both checkouts succeed, and the store then holds two order rows with the
  reference \<open>ORDER-5-1\<close>.
\<close>

theorem same_reference_twice:
  "fst (checkout int_ops 5 1 accepting_gateway shop 1) = shop_after_checkout
   \<and> shop_refilled = shop_after_checkout
         \<lparr>cart_items := [\<lparr>item_cartId = 1, item_productId = 1, item_quantity = 1\<rparr>]\<rparr>
   \<and> http_status (fst (snd (checkout int_ops 5 2 accepting_gateway shop_refilled 1))) = 201
   \<and> map midtransPaymentId (orders (fst (checkout int_ops 5 2 accepting_gateway shop_refilled 1)))
       = [Some ''ORDER-5-1'', Some ''ORDER-5-1'']"
  using checkout_shop checkout_refilled by (simp add: shop_refilled_def)

subsection \<open>Claim C9: the total\<close>










section \<open>The webhook\<close>

subsection \<open>Lookup, update and the route\<close>

text \<open>
  A row found by \<open>find_row\<close> exists and satisfies the condition.
\<close>

lemma find_row_Some:
  "find_row P xs = Some i \<Longrightarrow> i < length xs \<and> P (xs ! i)"
proof (induction xs arbitrary: i)
  case Nil
  then show ?case by simp
next
  case (Cons x xs)
  then show ?case
    by (cases "P x") (auto simp: nth_Cons')
qed




lemma webhook_Next:
  "authenticateWebhook sha512 server_key n = Next \<Longrightarrow>
   webhook sha512 server_key fails d n = handlePaymentNotification fails d n"
  by (simp add: webhook_def)

lemma webhook_Reject:
  "authenticateWebhook sha512 server_key n = Reject code msg \<Longrightarrow>
   webhook sha512 server_key fails d n = (d, message_reply code msg)"
  by (simp add: webhook_def)

lemma authenticateWebhook_Next:
  "authenticateWebhook sha512 server_key n = Next \<Longrightarrow> \<exists>reference. n_order_id n = Some reference"
  by (auto simp: authenticateWebhook_def truthy_def split: if_splits option.splits)

lemma authenticateWebhook_Reject:
  "authenticateWebhook sha512 server_key n = Reject code msg \<Longrightarrow> code = 400 \<or> code = 401"
  by (auto simp: authenticateWebhook_def split: if_splits option.splits)

text \<open>
  The handler when the lookup does not fail and finds the order at position \<open>i\<close>.
\<close>

lemma handle_found:
  assumes "n_order_id n = Some reference"
    and "find_row (\<lambda>row. midtransPaymentId row = Some reference) (orders d) = Some i"
    and "\<not> fails FindOrder"
  shows "handlePaymentNotification fails d n =
     (if releases_stock (n_transaction_status n) \<and> fails BeginTransaction then
        (d, message_reply 500 ''Server error processing notification'')
      else if fails SaveOrder then
        ((if releases_stock (n_transaction_status n) then
            d\<lparr>open_transactions := open_transactions d
                 @ [rollbackStock fails d (orderItems (orders d ! i)) Map.empty]\<rparr>
          else d),
         message_reply 500 ''Server error processing notification'')
      else
        ((if releases_stock (n_transaction_status n) then
            d\<lparr>open_transactions := open_transactions d
                 @ [rollbackStock fails d (orderItems (orders d ! i)) Map.empty]\<rparr>
          else d)
           \<lparr>orders := (orders d)[i := apply_notification n (orders d ! i)]\<rparr>,
         message_reply 200 ''Notification processed successfully''))"
  using assms by (simp add: handlePaymentNotification_def Let_def)

lemma handle_not_found:
  assumes "n_order_id n = Some reference"
    and "find_row (\<lambda>row. midtransPaymentId row = Some reference) (orders d) = None"
    and "\<not> fails FindOrder"
  shows "handlePaymentNotification fails d n = (d, message_reply 404 ''Order not found'')"
  using assms by (simp add: handlePaymentNotification_def)

lemma order_status_of_cases:
  "(order_status_of ts fs = Completed
      \<longleftrightarrow> ts = Some ''settlement'' \<or> (ts = Some ''capture'' \<and> fs = Some ''accept''))
   \<and> (order_status_of ts fs = Failed \<longleftrightarrow> releases_stock ts)"
  by (simp add: order_status_of_def releases_stock_def)

subsection \<open>The webhook on the concrete stores\<close>

lemma auth_signed: "authenticateWebhook toy_sha512 toy_key (signed_note ts) = Next"
  by (simp add: authenticateWebhook_def verifySignature_def truthy_def signed_note_def
      toy_sha512_def toy_key_def)

lemma find_pen_order:
  "find_row (\<lambda>row. midtransPaymentId row = Some ''ORDER-5-1'') (orders shop_after_checkout) = Some 0"
  "find_row (\<lambda>row. midtransPaymentId row = Some ''ORDER-5-1'') (orders shop_paid) = Some 0"
  by (simp_all add: shop_after_checkout_def shop_paid_def pen_order_def)


subsection \<open>Claim C4: a wrong signature\<close>

text \<open>
  Claim C4, as amended. A notification whose signature is not the hash of its order
  reference, status code and amount with the server key never reaches the handler, and the
  store is left as it was, whatever the plan of storage faults and whatever the other
  fields hold. The answer is 401 when the four required fields are all present and
  non-empty, and 400 (missing required fields) when one of them is absent or empty.
\<close>

theorem bad_signature_rejected:
  assumes "\<forall>orderId statusCode grossAmount.
      n_order_id n = Some orderId \<and> n_status_code n = Some statusCode
        \<and> n_gross_amount n = Some grossAmount
      \<longrightarrow> n_signature_key n \<noteq> Some (sha512 (orderId @ statusCode @ grossAmount @ server_key))"
  shows "webhook sha512 server_key fails d n =
     (d,
      if truthy (n_order_id n) \<and> truthy (n_status_code n) \<and> truthy (n_gross_amount n)
           \<and> truthy (n_signature_key n)
      then message_reply 401 ''Invalid signature - unauthorized webhook request''
      else message_reply 400 ''Missing required webhook fields'')"
  using assms
  by (auto simp: webhook_def authenticateWebhook_def verifySignature_def truthy_def
      split: option.splits)

text \<open>
  The theorem at a notification that carries a forged signature: 401, store unchanged.
\<close>

theorem bad_signature_rejected_witness:
  "n_signature_key forged_note
     \<noteq> Some (toy_sha512 (''ORDER-5-1'' @ ''200'' @ ''12.90'' @ toy_key))
   \<and> webhook toy_sha512 toy_key no_faults shop_after_checkout forged_note
       = (shop_after_checkout,
          message_reply 401 ''Invalid signature - unauthorized webhook request'')"
proof -
  have h: "\<forall>orderId statusCode grossAmount.
      n_order_id forged_note = Some orderId \<and> n_status_code forged_note = Some statusCode
        \<and> n_gross_amount forged_note = Some grossAmount
      \<longrightarrow> n_signature_key forged_note
            \<noteq> Some (toy_sha512 (orderId @ statusCode @ grossAmount @ toy_key))"
    by (simp add: forged_note_def expire_note_def signed_note_def toy_sha512_def)
  have s: "n_signature_key forged_note
     \<noteq> Some (toy_sha512 (''ORDER-5-1'' @ ''200'' @ ''12.90'' @ toy_key))"
    by (simp add: forged_note_def expire_note_def signed_note_def toy_sha512_def)
  from bad_signature_rejected [OF h, of no_faults shop_after_checkout] s show ?thesis
    by (simp add: forged_note_def expire_note_def signed_note_def truthy_def)
qed

text \<open>
  Claim C4 as stated fails in the status: a notification with the order reference, the
  status code and the amount but an empty signature does not carry the hash, and it is
  answered with 400, not 401 (the store is unchanged).
\<close>

theorem empty_signature_is_400:
  "n_signature_key unsigned_note
     \<noteq> Some (toy_sha512 (''ORDER-5-1'' @ ''200'' @ ''12.90'' @ toy_key))
   \<and> webhook toy_sha512 toy_key no_faults shop_after_checkout unsigned_note
       = (shop_after_checkout, message_reply 400 ''Missing required webhook fields'')"
  by (simp add: webhook_def authenticateWebhook_def truthy_def unsigned_note_def expire_note_def
      signed_note_def toy_sha512_def)

subsection \<open>Claim C3: the status after a notification\<close>

text \<open>
  Claim C3, as amended. After a notification that passes the signature check and names a
  known order, the order's status is the one the notification stands for, whatever the
  status was before: completed for a settlement or a capture with fraud status accept,
  failed for cancel, deny or expire, and pending for everything else (a pending status, a
  capture under challenge, an unrecognised status). The handler does not read the current
  status, so terminal states are not protected.
\<close>

theorem status_follows_notification:
  assumes "authenticateWebhook sha512 server_key n = Next"
    and "n_order_id n = Some reference"
    and "find_row (\<lambda>row. midtransPaymentId row = Some reference) (orders d) = Some i"
  shows "status (orders (fst (webhook sha512 server_key no_faults d n)) ! i)
           = order_status_of (n_transaction_status n) (n_fraud_status n)
       \<and> (order_status_of (n_transaction_status n) (n_fraud_status n) = Completed
            \<longleftrightarrow> n_transaction_status n = Some ''settlement''
                \<or> (n_transaction_status n = Some ''capture'' \<and> n_fraud_status n = Some ''accept''))
       \<and> (order_status_of (n_transaction_status n) (n_fraud_status n) = Failed
            \<longleftrightarrow> n_transaction_status n = Some ''cancel'' \<or> n_transaction_status n = Some ''deny''
                \<or> n_transaction_status n = Some ''expire'')"
proof -
  have nf: "\<not> no_faults FindOrder"
    by (simp add: no_faults_def)
  have nfs: "no_faults BeginTransaction = False" "no_faults SaveOrder = False"
    by (simp_all add: no_faults_def)
  from find_row_Some [OF assms(3)] have i: "i < length (orders d)"
    by simp
  have "status (orders (fst (webhook sha512 server_key no_faults d n)) ! i)
      = status (apply_notification n (orders d ! i))"
    unfolding webhook_Next [OF assms(1)] handle_found [where fails = no_faults, OF assms(2,3) nf]
    using i by (simp add: nfs)
  then show ?thesis
    using order_status_of_cases [of "n_transaction_status n" "n_fraud_status n"]
    by (simp add: apply_notification_def releases_stock_def)
qed

text \<open>
  The theorem at a settlement for the pending order of the store: it becomes completed.
\<close>

theorem status_follows_notification_witness:
  "authenticateWebhook toy_sha512 toy_key settlement_note = Next
   \<and> n_order_id settlement_note = Some ''ORDER-5-1''
   \<and> find_row (\<lambda>row. midtransPaymentId row = Some ''ORDER-5-1'') (orders shop_after_checkout)
       = Some 0
   \<and> status (orders shop_after_checkout ! 0) = Pending
   \<and> status (orders (fst (webhook toy_sha512 toy_key no_faults shop_after_checkout
                             settlement_note)) ! 0) = Completed"
proof -
  have a: "authenticateWebhook toy_sha512 toy_key settlement_note = Next"
    unfolding settlement_note_def by (rule auth_signed)
  have r: "n_order_id settlement_note = Some ''ORDER-5-1''"
    by (simp add: settlement_note_def signed_note_def)
  have p: "status (orders shop_after_checkout ! 0) = Pending"
    by (simp add: shop_after_checkout_def pen_order_def)
  from status_follows_notification [OF a r find_pen_order(1)]
  have "status (orders (fst (webhook toy_sha512 toy_key no_faults shop_after_checkout
                             settlement_note)) ! 0) = Completed"
    by (simp add: settlement_note_def signed_note_def order_status_of_def)
  with a r p find_pen_order(1) show ?thesis
    by blast
qed

text \<open>
  Claim C3 as stated fails: a notification with status pending, accepted for an order that
  is completed, moves the order back to pending.
\<close>

theorem completed_back_to_pending:
  "status (orders shop_paid ! 0) = Completed
   \<and> http_status (snd (webhook toy_sha512 toy_key no_faults shop_paid pending_note)) = 200
   \<and> status (orders (fst (webhook toy_sha512 toy_key no_faults shop_paid pending_note)) ! 0)
       = Pending"
  unfolding pending_note_def webhook_Next [OF auth_signed]
  by (simp add: handlePaymentNotification_def signed_note_def shop_after_checkout_def shop_paid_def
      pen_order_def no_faults_def releases_stock_def apply_notification_def
      order_status_of_def truthy_def Let_def message_reply_def)

subsection \<open>Claim C1: the same notification twice\<close>






subsection \<open>Claim C7: storage failures\<close>

text \<open>
  Claim C7, as amended. For a notification that passes the signature check and names a
  known order, the answer is 500 when the order lookup fails, when beginning the
  transaction for the stock release fails (cancel, deny or expire only), or when saving
  the order fails; otherwise it is 200. The failures inside the stock release (parsing
  the snapshot, reading or saving a product) do not enter: \<^verbatim>\<open>rollbackStock\<close> catches and
  logs them.
\<close>

theorem webhook_storage_failures:
  assumes "authenticateWebhook sha512 server_key n = Next"
    and "n_order_id n = Some reference"
    and "find_row (\<lambda>row. midtransPaymentId row = Some reference) (orders d) = Some i"
  shows "http_status (snd (webhook sha512 server_key fails d n)) =
     (if fails FindOrder \<or> (releases_stock (n_transaction_status n) \<and> fails BeginTransaction)
         \<or> fails SaveOrder
      then 500 else 200)"
proof (cases "fails FindOrder")
  case True
  then show ?thesis
    unfolding webhook_Next [OF assms(1)]
    by (simp add: handlePaymentNotification_def message_reply_def)
next
  case False
  show ?thesis
    unfolding webhook_Next [OF assms(1)] handle_found [where fails = fails, OF assms(2,3) False]
    using False by (simp add: message_reply_def)
qed

text \<open>
  The theorem at an expire notification when saving the order fails: 500.
\<close>

theorem webhook_storage_failures_witness:
  "authenticateWebhook toy_sha512 toy_key expire_note = Next
   \<and> n_order_id expire_note = Some ''ORDER-5-1''
   \<and> find_row (\<lambda>row. midtransPaymentId row = Some ''ORDER-5-1'') (orders shop_after_checkout)
       = Some 0
   \<and> order_save_fails SaveOrder
   \<and> http_status (snd (webhook toy_sha512 toy_key order_save_fails shop_after_checkout
                          expire_note)) = 500"
proof -
  have a: "authenticateWebhook toy_sha512 toy_key expire_note = Next"
    unfolding expire_note_def by (rule auth_signed)
  have r: "n_order_id expire_note = Some ''ORDER-5-1''"
    by (simp add: expire_note_def signed_note_def)
  have f: "order_save_fails SaveOrder"
    by (simp add: order_save_fails_def)
  from webhook_storage_failures [OF a r find_pen_order(1), of order_save_fails] f
  have "http_status (snd (webhook toy_sha512 toy_key order_save_fails shop_after_checkout
                          expire_note)) = 500"
    by simp
  with a r f find_pen_order(1) show ?thesis
    by blast
qed

text \<open>
  Claim C7 as stated fails for a failure during the stock release: saving the row of
  product 1 fails, the transaction of the release holds no write for it, and the endpoint
  still marks the order failed and answers 200.
\<close>

theorem release_failure_answers_200:
  "pen_save_fails (SaveProduct 1)
   \<and> http_status (snd (webhook toy_sha512 toy_key pen_save_fails shop_after_checkout
                          expire_note)) = 200
   \<and> length (open_transactions
        (fst (webhook toy_sha512 toy_key pen_save_fails shop_after_checkout expire_note))) = 1
   \<and> (open_transactions
        (fst (webhook toy_sha512 toy_key pen_save_fails shop_after_checkout expire_note)) ! 0) 1
       = None
   \<and> map status
        (orders (fst (webhook toy_sha512 toy_key pen_save_fails shop_after_checkout expire_note)))
       = [Failed]"
  unfolding expire_note_def webhook_Next [OF auth_signed]
  by (simp add: handlePaymentNotification_def signed_note_def shop_after_checkout_def
      pen_order_def pen_save_fails_def releases_stock_def rollbackStock_def apply_notification_def
      order_status_of_def truthy_def Let_def message_reply_def)

subsection \<open>Claim C10: what an accepted notification writes\<close>

text \<open>
  Claim C10. When the webhook answers 200, under any plan of storage faults, the
  notification names an order row, and the order table differs from the one before in
  that row alone, which is the old row with the status set and with the payment type, the
  transaction time and the settlement time each set from the payload when the payload's
  field is present and non-empty, and kept otherwise. The row's id, customer, total,
  snapshot and payment reference are the old ones, every other row is unchanged, and so
  are the customers, the carts and the cart lines. Unless the status is cancel, deny or
  expire, the product table is unchanged and no transaction is begun.
\<close>

theorem notification_frame:
  assumes "http_status (snd (webhook sha512 server_key fails d n)) = 200"
  shows "\<exists>i reference.
      n_order_id n = Some reference
      \<and> find_row (\<lambda>row. midtransPaymentId row = Some reference) (orders d) = Some i
      \<and> i < length (orders d)
      \<and> orders (fst (webhook sha512 server_key fails d n))
          = (orders d)[i := (orders d ! i)
              \<lparr>status := order_status_of (n_transaction_status n) (n_fraud_status n),
               paymentType :=
                 (if truthy (n_payment_type n) then n_payment_type n
                  else paymentType (orders d ! i)),
               transactionTime :=
                 (if truthy (n_transaction_time n) then map_option Date (n_transaction_time n)
                  else transactionTime (orders d ! i)),
               settlementTime :=
                 (if truthy (n_settlement_time n) then map_option Date (n_settlement_time n)
                  else settlementTime (orders d ! i))\<rparr>]
      \<and> order_id (orders (fst (webhook sha512 server_key fails d n)) ! i) = order_id (orders d ! i)
      \<and> order_userId (orders (fst (webhook sha512 server_key fails d n)) ! i)
          = order_userId (orders d ! i)
      \<and> totalAmount (orders (fst (webhook sha512 server_key fails d n)) ! i)
          = totalAmount (orders d ! i)
      \<and> orderItems (orders (fst (webhook sha512 server_key fails d n)) ! i)
          = orderItems (orders d ! i)
      \<and> midtransPaymentId (orders (fst (webhook sha512 server_key fails d n)) ! i)
          = midtransPaymentId (orders d ! i)
      \<and> (\<forall>j. j \<noteq> i \<longrightarrow> orders (fst (webhook sha512 server_key fails d n)) ! j = orders d ! j)
      \<and> users (fst (webhook sha512 server_key fails d n)) = users d
      \<and> carts (fst (webhook sha512 server_key fails d n)) = carts d
      \<and> cart_items (fst (webhook sha512 server_key fails d n)) = cart_items d
      \<and> (\<not> releases_stock (n_transaction_status n)
           \<longrightarrow> products (fst (webhook sha512 server_key fails d n)) = products d
             \<and> open_transactions (fst (webhook sha512 server_key fails d n))
                 = open_transactions d)"
proof (cases "authenticateWebhook sha512 server_key n")
  case (Reject code msg)
  with authenticateWebhook_Reject [OF Reject] assms show ?thesis
    by (auto simp: webhook_Reject message_reply_def)
next
  case Next
  then obtain reference where ref: "n_order_id n = Some reference"
    using authenticateWebhook_Next by blast
  from assms have ok: "http_status (snd (handlePaymentNotification fails d n)) = 200"
    by (simp add: webhook_Next [OF Next])
  then have nf: "\<not> fails FindOrder"
    by (auto simp: handlePaymentNotification_def message_reply_def)
  from ok ref nf obtain i
    where found: "find_row (\<lambda>row. midtransPaymentId row = Some reference) (orders d) = Some i"
    by (cases "find_row (\<lambda>row. midtransPaymentId row = Some reference) (orders d)")
       (auto simp: handlePaymentNotification_def message_reply_def)
  from find_row_Some [OF found] have i: "i < length (orders d)"
    by simp
  from ok have run: "\<not> (releases_stock (n_transaction_status n) \<and> fails BeginTransaction)"
    "\<not> fails SaveOrder"
    unfolding handle_found [where fails = fails, OF ref found nf]
    by (auto simp: message_reply_def split: if_splits)
  have result: "fst (webhook sha512 server_key fails d n) =
      (if releases_stock (n_transaction_status n) then
            d\<lparr>open_transactions := open_transactions d
                 @ [rollbackStock fails d (orderItems (orders d ! i)) Map.empty]\<rparr>
          else d)
           \<lparr>orders := (orders d)[i := apply_notification n (orders d ! i)]\<rparr>"
    unfolding webhook_Next [OF Next] handle_found [where fails = fails, OF ref found nf]
    using run by auto
  show ?thesis
    unfolding result using ref found i
    by (auto simp: apply_notification_def)
qed

text \<open>
  The theorem at a settlement for the pending order of the store.
\<close>

theorem notification_frame_witness:
  "http_status (snd (webhook toy_sha512 toy_key no_faults shop_after_checkout settlement_note))
     = 200
   \<and> users (fst (webhook toy_sha512 toy_key no_faults shop_after_checkout settlement_note))
       = users shop_after_checkout
   \<and> products (fst (webhook toy_sha512 toy_key no_faults shop_after_checkout settlement_note))
       = products shop_after_checkout
   \<and> open_transactions
        (fst (webhook toy_sha512 toy_key no_faults shop_after_checkout settlement_note)) = []
   \<and> orders (fst (webhook toy_sha512 toy_key no_faults shop_after_checkout settlement_note))
       = [pen_order\<lparr>status := Completed, paymentType := Some ''bank_transfer'',
                    transactionTime := Some (Date ''2024-05-01 10:00:00'')\<rparr>]"
proof -
  have ok: "http_status
      (snd (webhook toy_sha512 toy_key no_faults shop_after_checkout settlement_note)) = 200"
    unfolding settlement_note_def webhook_Next [OF auth_signed]
    by (simp add: handlePaymentNotification_def signed_note_def shop_after_checkout_def
        pen_order_def no_faults_def releases_stock_def Let_def message_reply_def)
  have nr: "\<not> releases_stock (n_transaction_status settlement_note)"
    by (simp add: settlement_note_def signed_note_def releases_stock_def)
  from notification_frame [OF ok] obtain i reference
    where ref: "n_order_id settlement_note = Some reference"
      and found: "find_row (\<lambda>row. midtransPaymentId row = Some reference)
                    (orders shop_after_checkout) = Some i"
      and rows: "orders (fst (webhook toy_sha512 toy_key no_faults shop_after_checkout settlement_note))
          = (orders shop_after_checkout)[i := (orders shop_after_checkout ! i)
              \<lparr>status := order_status_of (n_transaction_status settlement_note)
                           (n_fraud_status settlement_note),
               paymentType :=
                 (if truthy (n_payment_type settlement_note) then n_payment_type settlement_note
                  else paymentType (orders shop_after_checkout ! i)),
               transactionTime :=
                 (if truthy (n_transaction_time settlement_note)
                  then map_option Date (n_transaction_time settlement_note)
                  else transactionTime (orders shop_after_checkout ! i)),
               settlementTime :=
                 (if truthy (n_settlement_time settlement_note)
                  then map_option Date (n_settlement_time settlement_note)
                  else settlementTime (orders shop_after_checkout ! i))\<rparr>]"
      and frame: "users (fst (webhook toy_sha512 toy_key no_faults shop_after_checkout settlement_note))
          = users shop_after_checkout"
        "\<not> releases_stock (n_transaction_status settlement_note)
           \<longrightarrow> products (fst (webhook toy_sha512 toy_key no_faults shop_after_checkout settlement_note))
                = products shop_after_checkout
             \<and> open_transactions
                 (fst (webhook toy_sha512 toy_key no_faults shop_after_checkout settlement_note))
                 = open_transactions shop_after_checkout"
    by blast
  from ref have "reference = ''ORDER-5-1''"
    by (simp add: settlement_note_def signed_note_def)
  with found find_pen_order(1) have i: "i = 0"
    by simp
  have rows': "orders (fst (webhook toy_sha512 toy_key no_faults shop_after_checkout settlement_note))
       = [pen_order\<lparr>status := Completed, paymentType := Some ''bank_transfer'',
                    transactionTime := Some (Date ''2024-05-01 10:00:00'')\<rparr>]"
    unfolding rows i
    by (simp add: settlement_note_def signed_note_def shop_after_checkout_def order_status_of_def
        truthy_def)
  from frame nr have "products (fst (webhook toy_sha512 toy_key no_faults shop_after_checkout settlement_note))
                = products shop_after_checkout"
    "open_transactions
        (fst (webhook toy_sha512 toy_key no_faults shop_after_checkout settlement_note)) = []"
    by (simp_all add: shop_after_checkout_def)
  with ok frame(1) rows' show ?thesis
    by blast
qed

end
